theory Spec2Isabelle
  imports Complex_Main "HOL-Library.Word"
begin

section \<open>The bookstore service: \<open>bookstore/main.go\<close>\<close>

text \<open>
  The program is four HTTP handlers over one MongoDB collection. The handlers are embedded
  as functions from the request, the collection and the outcome of the calls the handler
  makes into the outside world (the identifier generator and the database driver) to the
  response and the new collection. Go strings are byte strings, modelled as \<open>string\<close>
  (a list of 8-bit \<open>char\<close>s).
\<close>

subsection \<open>Bytes\<close>

definition byte :: "char \<Rightarrow> nat" where
  "byte c = of_char c"

text \<open>\<open>lower(c)\<close> of package strconv is \<open>c | ('x' - 'X')\<close>, that is \<open>c | 0x20\<close>.\<close>

definition lower :: "char \<Rightarrow> nat" where
  "lower c = or (byte c) 32"

definition isDigit :: "char \<Rightarrow> bool" where
  "isDigit c = (48 \<le> byte c \<and> byte c \<le> 57)"

definition isHexLetter :: "char \<Rightarrow> bool" where
  "isHexLetter c = (97 \<le> lower c \<and> lower c \<le> 102)"

subsection \<open>\<open>float64\<close> and \<open>strconv.ParseFloat\<close>\<close>

text \<open>
  A \<open>float64\<close> is a sign with a magnitude, an infinity with a sign, or NaN:
  \<open>Finite True 5\<close> is the number \<open>-5\<close>. The magnitude of a finite value is carried
  as the rational number it denotes; \<open>nearest64\<close> below only produces magnitudes
  that binary64 represents.
\<close>

datatype float64 = Finite (negative: bool) (magnitude: rat) | Infinity (negative: bool) | NaN

datatype NumError = ErrSyntax | ErrRange

definition ipow :: "rat \<Rightarrow> int \<Rightarrow> rat" where
  "ipow b k = (if 0 \<le> k then b ^ nat k else 1 / b ^ nat (- k))"

function bitlen :: "int \<Rightarrow> nat" where
  "bitlen n = (if n \<le> 0 then 0 else Suc (bitlen (n div 2)))"
  by pat_completeness auto
termination
  by (relation "measure nat") auto

declare bitlen.simps [simp del]

text \<open>For \<open>0 < x\<close>, \<open>ilog2 x\<close> is the integer \<open>k\<close> with \<open>2^k \<le> x < 2^(k+1)\<close>.\<close>

definition ilog2 :: "rat \<Rightarrow> int" where
  "ilog2 x =
     (let (p, q) = quotient_of x;
          k = int (bitlen p) - int (bitlen q)
      in if ipow 2 k \<le> x then k else k - 1)"

definition roundEven :: "rat \<Rightarrow> int" where
  "roundEven x =
     (let f = \<lfloor>x\<rfloor>; d = x - of_int f
      in if d < 1 / 2 then f
         else if 1 / 2 < d then f + 1
         else if even f then f else f + 1)"

text \<open>
  Rounding of a non-negative rational to the nearest binary64 magnitude, ties to even:
  53 significant bits, the exponent of the last place no smaller than \<open>-1074\<close>
  (subnormal numbers). The result may be \<open>2^1024\<close>, which is the overflow.
\<close>

definition nearest64 :: "rat \<Rightarrow> rat" where
  "nearest64 x =
     (if x = 0 then 0
      else let e = max (ilog2 x) (- 1022); u = ipow 2 (e - 52)
           in of_int (roundEven (x / u)) * u)"

definition toFloat64 :: "bool \<Rightarrow> rat \<Rightarrow> NumError + float64" where
  "toFloat64 neg x =
     (let m = nearest64 x
      in if 2 ^ 1024 \<le> m then Inl ErrRange else Inr (Finite neg m))"

text \<open>\<open>commonPrefixLenIgnoreCase(s, prefix)\<close>; the prefix is lower case.\<close>

fun commonPrefixLenIgnoreCase :: "string \<Rightarrow> string \<Rightarrow> nat" where
  "commonPrefixLenIgnoreCase (c # cs) (p # ps) =
     (let c' = (if 65 \<le> byte c \<and> byte c \<le> 90 then byte c + 32 else byte c)
      in if c' \<noteq> byte p then 0 else Suc (commonPrefixLenIgnoreCase cs ps))"
| "commonPrefixLenIgnoreCase _ _ = 0"

definition infPrefix :: "bool \<Rightarrow> nat \<Rightarrow> string \<Rightarrow> (float64 \<times> nat) option" where
  "infPrefix neg nsign s =
     (let n0 = commonPrefixLenIgnoreCase s ''infinity'';
          n = (if 3 < n0 \<and> n0 < 8 then 3 else n0)
      in if n = 3 \<or> n = 8 then Some (Infinity neg, nsign + n) else None)"

text \<open>
  \<open>special(s)\<close>: the value and the number of bytes consumed. The cases \<open>'+'\<close> and
  \<open>'-'\<close> fall through to the infinity case only, so a signed \<open>nan\<close> is not special.
\<close>

definition special :: "string \<Rightarrow> (float64 \<times> nat) option" where
  "special s =
     (case s of
        [] \<Rightarrow> None
      | c # cs \<Rightarrow>
          if c = CHR ''+'' then infPrefix False 1 cs
          else if c = CHR ''-'' then infPrefix True 1 cs
          else if c = CHR ''i'' \<or> c = CHR ''I'' then infPrefix False 0 s
          else if c = CHR ''n'' \<or> c = CHR ''N'' then
            (if commonPrefixLenIgnoreCase s ''nan'' = 3 then Some (NaN, 3) else None)
          else None)"

text \<open>
  \<open>underscoreOK(s)\<close>: underscores only between digits, or between a base prefix and a
  digit. \<open>saw\<close> is the class of the last byte: \<open>^\<close>, \<open>0\<close>, \<open>_\<close> or \<open>!\<close>.
\<close>

fun underscoreLoop :: "bool \<Rightarrow> char \<Rightarrow> string \<Rightarrow> bool" where
  "underscoreLoop hex saw [] = (saw \<noteq> CHR ''_'')"
| "underscoreLoop hex saw (c # cs) =
     (if isDigit c \<or> (hex \<and> isHexLetter c) then underscoreLoop hex (CHR ''0'') cs
      else if c = CHR ''_'' then
        (if saw \<noteq> CHR ''0'' then False else underscoreLoop hex (CHR ''_'') cs)
      else if saw = CHR ''_'' then False
      else underscoreLoop hex (CHR ''!'') cs)"

definition underscoreOK :: "string \<Rightarrow> bool" where
  "underscoreOK s0 =
     (let s = (case s0 of
                 c # cs \<Rightarrow> if c = CHR ''-'' \<or> c = CHR ''+'' then cs else s0
               | [] \<Rightarrow> s0)
      in case s of
           c # d # rest \<Rightarrow>
             if c = CHR ''0'' \<and> (lower d = 98 \<or> lower d = 111 \<or> lower d = 120)
             then underscoreLoop (lower d = 120) (CHR ''0'') rest
             else underscoreLoop False (CHR ''^'') s
         | _ \<Rightarrow> underscoreLoop False (CHR ''^'') s)"

text \<open>
  The state of \<open>readFloat\<close>'s digit loop. The Go code keeps the first 19 digits (16 in
  base 16) in a \<open>uint64\<close> and a flag \<open>trunc\<close> for the rest, and its callers fall back to
  the full digit string when the flag is set; the model keeps every digit in an unbounded
  \<open>mantissa\<close>, so \<open>ndMant\<close> is \<open>nd\<close>.
\<close>

record scan =
  mantissa :: int
  nd :: nat
  dp :: int
  sawdot :: bool
  sawdigits :: bool
  underscores :: bool

fun digitLoop :: "int \<Rightarrow> string \<Rightarrow> scan \<Rightarrow> scan \<times> string" where
  "digitLoop base [] st = (st, [])"
| "digitLoop base (c # cs) st =
     (if c = CHR ''_'' then digitLoop base cs (st\<lparr>underscores := True\<rparr>)
      else if c = CHR ''.'' then
        (if sawdot st then (st, c # cs)
         else digitLoop base cs (st\<lparr>sawdot := True, dp := int (nd st)\<rparr>))
      else if isDigit c then
        (if c = CHR ''0'' \<and> nd st = 0
         then digitLoop base cs (st\<lparr>sawdigits := True, dp := dp st - 1\<rparr>)
         else digitLoop base cs
                (st\<lparr>sawdigits := True, nd := nd st + 1,
                    mantissa := mantissa st * base + (int (byte c) - 48)\<rparr>))
      else if base = 16 \<and> isHexLetter c then
        digitLoop base cs
          (st\<lparr>sawdigits := True, nd := nd st + 1,
              mantissa := mantissa st * 16 + (int (lower c) - 97 + 10)\<rparr>)
      else (st, c # cs))"

text \<open>
  The exponent's digits: \<open>e\<close> stops growing once it has reached 10000. The result is
  \<open>e\<close>, whether an underscore was seen, and the rest of the input.
\<close>

fun expLoop :: "string \<Rightarrow> nat \<Rightarrow> bool \<Rightarrow> nat \<times> bool \<times> string" where
  "expLoop [] e us = (e, us, [])"
| "expLoop (c # cs) e us =
     (if c = CHR ''_'' then expLoop cs e True
      else if isDigit c then expLoop cs (if e < 10000 then e * 10 + (byte c - 48) else e) us
      else (e, us, c # cs))"

text \<open>
  \<open>readFloat(s)\<close>: the sign, whether the number is hexadecimal, the mantissa, the
  exponent of the base (10, or 2 for a hexadecimal number) and the number of bytes
  consumed; \<open>None\<close> is \<open>ok = false\<close>.
\<close>

definition readFloat :: "string \<Rightarrow> (bool \<times> bool \<times> int \<times> int \<times> nat) option" where
  "readFloat s =
     (case s of
        [] \<Rightarrow> None
      | c0 # _ \<Rightarrow>
          let neg = (c0 = CHR ''-'');
              s1 = (if c0 = CHR ''+'' \<or> c0 = CHR ''-'' then tl s else s);
              hex = (2 < length s1 \<and> s1 ! 0 = CHR ''0'' \<and> lower (s1 ! 1) = 120);
              base = (if hex then 16 else 10);
              s2 = (if hex then drop 2 s1 else s1);
              (st, s3) = digitLoop base s2
                 \<lparr>mantissa = 0, nd = 0, dp = 0, sawdot = False, sawdigits = False,
                  underscores = False\<rparr>
          in if \<not> sawdigits st then None
             else
               let dp1 = (if sawdot st then dp st else int (nd st));
                   dp2 = (if hex then dp1 * 4 else dp1);
                   ndMant = (if hex then int (nd st) * 4 else int (nd st));
                   expChar = (if hex then 112 else 101)
               in case s3 of
                    c # s4 \<Rightarrow>
                      if lower c = expChar then
                        (case s4 of
                           [] \<Rightarrow> None
                         | d # s5 \<Rightarrow>
                             let esign = (if d = CHR ''-'' then - 1 else 1 :: int);
                                 s6 = (if d = CHR ''+'' \<or> d = CHR ''-'' then s5 else s4)
                             in case s6 of
                                  [] \<Rightarrow> None
                                | d' # _ \<Rightarrow>
                                    if \<not> isDigit d' then None
                                    else
                                      let (e, us, s7) = expLoop s6 0 (underscores st);
                                          n = length s - length s7
                                      in if us \<and> \<not> underscoreOK (take n s) then None
                                         else Some (neg, hex, mantissa st,
                                                    (if mantissa st \<noteq> 0
                                                     then dp2 + int e * esign - ndMant else 0),
                                                    n))
                      else if hex then None
                      else
                        let n = length s - length s3
                        in if underscores st \<and> \<not> underscoreOK (take n s) then None
                           else Some (neg, hex, mantissa st,
                                      (if mantissa st \<noteq> 0 then dp2 - ndMant else 0), n)
                  | [] \<Rightarrow>
                      if hex then None
                      else if underscores st \<and> \<not> underscoreOK s then None
                      else Some (neg, hex, mantissa st,
                                 (if mantissa st \<noteq> 0 then dp2 - ndMant else 0), length s))"

text \<open>
  \<open>atof64(s)\<close>: the special values first, then the number read by \<open>readFloat\<close>,
  converted to the nearest \<open>float64\<close>. The result is the error or the value, with the
  number of bytes consumed.
\<close>

definition atof64 :: "string \<Rightarrow> (NumError + float64) \<times> nat" where
  "atof64 s =
     (case special s of
        Some (v, n) \<Rightarrow> (Inr v, n)
      | None \<Rightarrow>
          (case readFloat s of
             None \<Rightarrow> (Inl ErrSyntax, 0)
           | Some (neg, hex, mant, ex, n) \<Rightarrow>
               (toFloat64 neg (of_int mant * ipow (if hex then 2 else 10) ex), n)))"

text \<open>
  \<open>strconv.ParseFloat(s, 64)\<close>: input left over after the number is a syntax error.
  This is the function of Go 1.13 and later, which reads hexadecimal numbers and
  underscores between digits.
\<close>

definition ParseFloat :: "string \<Rightarrow> NumError + float64" where
  "ParseFloat s =
     (case atof64 s of
        (r, n) \<Rightarrow>
          if n \<noteq> length s \<and> r \<noteq> Inl ErrSyntax then Inl ErrSyntax else r)"

subsection \<open>\<open>primitive.ObjectID\<close>\<close>

text \<open>
  An \<open>ObjectID\<close> is \<open>[12]byte\<close>; \<open>NilObjectID\<close> is the zero value.
  \<open>ObjectIDFromHex\<close> accepts exactly the strings of 24 hexadecimal digits, of either
  case (\<open>len(s) != 24\<close> is \<open>ErrInvalidHex\<close>, then \<open>hex.Decode\<close>).
\<close>

type_synonym ObjectID = "8 word list"

definition NilObjectID :: ObjectID where
  "NilObjectID = [0, 0, 0, 0, 0, 0, 0, 0, 0, 0, 0, 0]"

definition fromHexChar :: "char \<Rightarrow> nat option" where
  "fromHexChar c =
     (if 48 \<le> byte c \<and> byte c \<le> 57 then Some (byte c - 48)
      else if 97 \<le> byte c \<and> byte c \<le> 102 then Some (byte c - 97 + 10)
      else if 65 \<le> byte c \<and> byte c \<le> 70 then Some (byte c - 65 + 10)
      else None)"

fun hexDecode :: "string \<Rightarrow> 8 word list option" where
  "hexDecode (p # q # rest) =
     (case fromHexChar p of
        None \<Rightarrow> None
      | Some a \<Rightarrow>
          (case fromHexChar q of
             None \<Rightarrow> None
           | Some b \<Rightarrow>
               (case hexDecode rest of
                  None \<Rightarrow> None
                | Some bs \<Rightarrow> Some (of_nat (a * 16 + b) # bs))))"
| "hexDecode [c] = None"
| "hexDecode [] = Some []"

definition ObjectIDFromHex :: "string \<Rightarrow> ObjectID option" where
  "ObjectIDFromHex s = (if length s \<noteq> 24 then None else hexDecode s)"

subsection \<open>The collection and the driver\<close>

text \<open>The \<open>Book\<close> struct.\<close>

record Book =
  ID :: ObjectID
  Name :: string
  Author :: string
  Cost :: float64

text \<open>
  The collection \<open>bookstore.books\<close> is the list of its documents in the order in which
  \<open>Find\<close> returns them, together with the log of the calls the driver has received.
  The documents are those this program writes, so each is a \<open>Book\<close>.
\<close>

datatype StoreCall =
    CallInsertOne Book
  | CallDeleteOne ObjectID
  | CallUpdateOne ObjectID string string float64
  | CallFind

record Store =
  docs :: "Book list"
  calls :: "StoreCall list"

text \<open>
  How the one driver call of a request goes, as far as the collection does not decide it:
  the database answers; or the call fails before it reaches the database (no
  connection); or the database carries the operation out and the answer does not arrive
  within \<open>mongoTimeout\<close>. In the last two cases the driver returns an error.
\<close>

datatype DriverOutcome = Answered | Unreachable | AnswerLost

text \<open>
  What a handler gets from outside during one request: the identifier that
  \<open>primitive.NewObjectID()\<close> returns to the handler, the identifier the driver would
  generate for a document that has no \<open>_id\<close>, and the outcome of the driver call.
\<close>

record Env =
  newObjectID :: ObjectID
  driverObjectID :: ObjectID
  driver :: DriverOutcome

datatype StoreError = DriverError | DuplicateKey

definition ids :: "Book list \<Rightarrow> ObjectID list" where
  "ids bs = map ID bs"

text \<open>
  \<open>coll.InsertOne(ctx, book)\<close>. The field tag \<open>bson:"_id,omitempty"\<close> leaves a zero
  \<open>ID\<close> out of the document, and the driver then adds an identifier of its own. The
  collection's index on \<open>_id\<close> is unique: a document whose \<open>_id\<close> is already there
  is refused.
\<close>

definition InsertOne :: "Env \<Rightarrow> Book \<Rightarrow> Store \<Rightarrow> (StoreError + ObjectID) \<times> Store" where
  "InsertOne env book st =
     (let st1 = st\<lparr>calls := calls st @ [CallInsertOne book]\<rparr>
      in if driver env = Unreachable then (Inl DriverError, st1)
         else
           let doc = (if ID book = NilObjectID then book\<lparr>ID := driverObjectID env\<rparr> else book)
           in if ID doc \<in> set (ids (docs st1)) then (Inl DuplicateKey, st1)
              else (if driver env = AnswerLost then Inl DriverError else Inr (ID doc),
                    st1\<lparr>docs := docs st1 @ [doc]\<rparr>))"

text \<open>\<open>coll.DeleteOne(ctx, bson.M{"_id": objID})\<close>: the first match goes.\<close>

fun deleteFirst :: "ObjectID \<Rightarrow> Book list \<Rightarrow> nat \<times> Book list" where
  "deleteFirst i [] = (0, [])"
| "deleteFirst i (b # bs) =
     (if ID b = i then (1, bs)
      else case deleteFirst i bs of (n, bs') \<Rightarrow> (n, b # bs'))"

definition DeleteOne :: "Env \<Rightarrow> ObjectID \<Rightarrow> Store \<Rightarrow> (StoreError + nat) \<times> Store" where
  "DeleteOne env i st =
     (let st1 = st\<lparr>calls := calls st @ [CallDeleteOne i]\<rparr>
      in if driver env = Unreachable then (Inl DriverError, st1)
         else case deleteFirst i (docs st1) of
                (n, bs) \<Rightarrow>
                  (if driver env = AnswerLost then Inl DriverError else Inr n,
                   st1\<lparr>docs := bs\<rparr>))"

text \<open>
  \<open>coll.UpdateOne(ctx, bson.M{"_id": objID}, bson.M{"$set": ...})\<close>: the three fields
  of the first match are set; the result is \<open>MatchedCount\<close>.
\<close>

fun updateFirst :: "ObjectID \<Rightarrow> string \<Rightarrow> string \<Rightarrow> float64 \<Rightarrow> Book list \<Rightarrow> nat \<times> Book list" where
  "updateFirst i n a c [] = (0, [])"
| "updateFirst i n a c (b # bs) =
     (if ID b = i then (1, b\<lparr>Name := n, Author := a, Cost := c\<rparr> # bs)
      else case updateFirst i n a c bs of (k, bs') \<Rightarrow> (k, b # bs'))"

definition UpdateOne ::
  "Env \<Rightarrow> ObjectID \<Rightarrow> string \<Rightarrow> string \<Rightarrow> float64 \<Rightarrow> Store \<Rightarrow> (StoreError + nat) \<times> Store" where
  "UpdateOne env i n a c st =
     (let st1 = st\<lparr>calls := calls st @ [CallUpdateOne i n a c]\<rparr>
      in if driver env = Unreachable then (Inl DriverError, st1)
         else case updateFirst i n a c (docs st1) of
                (k, bs) \<Rightarrow>
                  (if driver env = AnswerLost then Inl DriverError else Inr k,
                   st1\<lparr>docs := bs\<rparr>))"

text \<open>
  The loop of \<open>getBooks\<close> over the cursor: each document the cursor still holds is
  decoded and appended to \<open>books\<close>. Every document of the model is a \<open>Book\<close>, so
  \<open>cursor.Decode\<close> has nothing to refuse.
\<close>

fun cursorLoop :: "Book list \<Rightarrow> Book list \<Rightarrow> Book list" where
  "cursorLoop [] books = books"
| "cursorLoop (book # cursor) books = cursorLoop cursor (books @ [book])"

text \<open>
  \<open>getBooks()\<close>: \<open>coll.Find(ctx, bson.M{})\<close> opens a cursor on all documents; an
  error of \<open>Find\<close> or of the cursor is returned.
\<close>

definition getBooks :: "Env \<Rightarrow> Store \<Rightarrow> (StoreError + Book list) \<times> Store" where
  "getBooks env st =
     (let st1 = st\<lparr>calls := calls st @ [CallFind]\<rparr>
      in if driver env \<noteq> Answered then (Inl DriverError, st1)
         else (Inr (cursorLoop (docs st1) []), st1))"

subsection \<open>Requests and responses\<close>

text \<open>
  A request is its method and its parsed form (\<open>url.Values\<close>: each key has a list of
  values, empty when the key is absent). \<open>r.FormValue(key)\<close> is the first value, or the
  empty string.
\<close>

record Request =
  Method :: string
  Form :: "string \<Rightarrow> string list"

definition FormValue :: "Request \<Rightarrow> string \<Rightarrow> string" where
  "FormValue r key = (case Form r key of [] \<Rightarrow> [] | v # _ \<Rightarrow> v)"

record Response =
  status :: nat
  body :: string

text \<open>\<open>http.Error(w, msg, code)\<close> writes the status and the message with a newline.\<close>

definition httpError :: "string \<Rightarrow> nat \<Rightarrow> Response" where
  "httpError msg code = \<lparr>status = code, body = msg @ [CHR 0x0A]\<rparr>"

text \<open>\<open>fmt.Fprintf(w, text)\<close> on a fresh \<open>ResponseWriter\<close>: status 200.\<close>

definition ok :: "string \<Rightarrow> Response" where
  "ok text = \<lparr>status = 200, body = text\<rparr>"

definition StatusBadRequest :: nat where
  "StatusBadRequest = 400"

definition StatusMethodNotAllowed :: nat where
  "StatusMethodNotAllowed = 405"

definition StatusInternalServerError :: nat where
  "StatusInternalServerError = 500"

definition addedFragment :: string where
  "addedFragment = ''<script>alert('Book added successfully!'); window.location.href = '/';</script>''"

definition notFoundFragment :: string where
  "notFoundFragment = ''<script>alert('Book not found!'); window.location.href = '/';</script>''"

definition deletedFragment :: string where
  "deletedFragment = ''<script>alert('Book deleted successfully!'); window.location.href = '/';</script>''"

definition modifiedFragment :: string where
  "modifiedFragment = ''<script>alert('Book modified successfully!'); window.location.href = '/';</script>''"

subsection \<open>The handlers\<close>

definition handleSubmit :: "Env \<Rightarrow> Request \<Rightarrow> Store \<Rightarrow> Response \<times> Store" where
  "handleSubmit env r st =
     (if Method r \<noteq> ''POST'' then (httpError ''Method not allowed'' StatusMethodNotAllowed, st)
      else
        let name = FormValue r ''name'';
            author = FormValue r ''author'';
            cost = FormValue r ''cost''
        in case ParseFloat cost of
             Inl err \<Rightarrow> (httpError ''Invalid cost'' StatusBadRequest, st)
           | Inr bookCost \<Rightarrow>
               let book = \<lparr>ID = newObjectID env, Name = name, Author = author, Cost = bookCost\<rparr>
               in case InsertOne env book st of
                    (Inl err, st') \<Rightarrow>
                      (httpError ''Failed to insert book'' StatusInternalServerError, st')
                  | (Inr _, st') \<Rightarrow> (ok addedFragment, st'))"

definition handleDelete :: "Env \<Rightarrow> Request \<Rightarrow> Store \<Rightarrow> Response \<times> Store" where
  "handleDelete env r st =
     (if Method r \<noteq> ''POST'' then (httpError ''Method not allowed'' StatusMethodNotAllowed, st)
      else
        let bookID = FormValue r ''id''
        in if bookID = [] then (httpError ''Invalid book ID'' StatusBadRequest, st)
           else case ObjectIDFromHex bookID of
                  None \<Rightarrow> (httpError ''Invalid book ID'' StatusBadRequest, st)
                | Some objID \<Rightarrow>
                    (case DeleteOne env objID st of
                       (Inl err, st') \<Rightarrow>
                         (httpError ''Failed to delete book'' StatusInternalServerError, st')
                     | (Inr DeletedCount, st') \<Rightarrow>
                         if DeletedCount = 0 then (ok notFoundFragment, st')
                         else (ok deletedFragment, st')))"

definition handleModify :: "Env \<Rightarrow> Request \<Rightarrow> Store \<Rightarrow> Response \<times> Store" where
  "handleModify env r st =
     (if Method r \<noteq> ''POST'' then (httpError ''Method not allowed'' StatusMethodNotAllowed, st)
      else
        let bookID = FormValue r ''id''
        in if bookID = [] then (httpError ''Invalid book ID'' StatusBadRequest, st)
           else case ObjectIDFromHex bookID of
                  None \<Rightarrow> (httpError ''Invalid book ID'' StatusBadRequest, st)
                | Some objID \<Rightarrow>
                    let name = FormValue r ''name'';
                        author = FormValue r ''author'';
                        cost = FormValue r ''cost''
                    in case ParseFloat cost of
                         Inl err \<Rightarrow> (httpError ''Invalid cost'' StatusBadRequest, st)
                       | Inr bookCost \<Rightarrow>
                           (case UpdateOne env objID name author bookCost st of
                              (Inl err, st') \<Rightarrow>
                                (httpError ''Failed to update book'' StatusInternalServerError, st')
                            | (Inr _, st') \<Rightarrow> (ok modifiedFragment, st')))"

subsection \<open>The listing page\<close>

text \<open>
  \<open>tpl\<close> is a template of package \<open>html/template\<close>, which escapes every value it
  prints. This is the escaper it applies to a value printed in HTML text
  (\<open>htmlReplacementTable\<close>): the bytes NUL, \<open>"\<close>, \<open>&\<close>, \<open>'\<close>, \<open>+\<close>, \<open><\<close>
  and \<open>>\<close> are replaced, every other byte is copied.
\<close>

definition htmlEscapeByte :: "char \<Rightarrow> string" where
  "htmlEscapeByte c =
     (if c = CHR 0x00 then [CHR 0xEF, CHR 0xBF, CHR 0xBD]
      else if c = CHR 0x22 then ''&#34;''
      else if c = CHR ''&'' then ''&amp;''
      else if c = CHR 0x27 then ''&#39;''
      else if c = CHR ''+'' then ''&#43;''
      else if c = CHR ''<'' then ''&lt;''
      else if c = CHR ''>'' then ''&gt;''
      else [c])"

definition htmlEscape :: "string \<Rightarrow> string" where
  "htmlEscape s = concat (map htmlEscapeByte s)"

text \<open>
  Modelled from the spec: "appears as literal text" (4.4, 8) is about what a browser
  shows for the escaped text, which is no code of the program. A browser decodes the
  character references; only the references the escaper writes are decoded here.
\<close>

function htmlUnescape :: "string \<Rightarrow> string" where
  "htmlUnescape [] = []"
| "htmlUnescape (c # cs) =
     (if c = CHR ''&'' \<and> take 3 cs = ''lt;'' then CHR ''<'' # htmlUnescape (drop 3 cs)
      else if c = CHR ''&'' \<and> take 3 cs = ''gt;'' then CHR ''>'' # htmlUnescape (drop 3 cs)
      else if c = CHR ''&'' \<and> take 4 cs = ''amp;'' then CHR ''&'' # htmlUnescape (drop 4 cs)
      else if c = CHR ''&'' \<and> take 4 cs = ''#34;'' then CHR 0x22 # htmlUnescape (drop 4 cs)
      else if c = CHR ''&'' \<and> take 4 cs = ''#39;'' then CHR 0x27 # htmlUnescape (drop 4 cs)
      else if c = CHR ''&'' \<and> take 4 cs = ''#43;'' then CHR ''+'' # htmlUnescape (drop 4 cs)
      else c # htmlUnescape cs)"
  by pat_completeness auto
termination
  by (relation "measure length") auto

text \<open>\<open>ObjectID.Hex()\<close>: two lower-case hexadecimal digits for each byte.\<close>

definition hexDigit :: "nat \<Rightarrow> char" where
  "hexDigit n = ''0123456789abcdef'' ! (n mod 16)"

definition Hex :: "ObjectID \<Rightarrow> string" where
  "Hex i = concat (map (\<lambda>b. [hexDigit (unat b div 16), hexDigit (unat b mod 16)]) i)"

text \<open>
  Modelled from the spec: the template file \<open>index.html\<close>, which \<open>init\<close> loads with
  \<open>template.ParseFiles\<close> and \<open>handleIndex\<close> executes, is not among the sources. The
  spec (4.4) says of it that the page embeds a table of all records and a submission
  form, and that every field of a record is escaped. The model is such a page: a fixed
  head, one table row for each record with its four fields as escaped text, and a fixed
  tail with the form. How a \<open>float64\<close> is printed is the parameter \<open>fmt\<close>.
\<close>

definition pageHead :: string where
  "pageHead = ''<!DOCTYPE html><html><head><title>Bookstore</title></head><body><table><tr><th>Name</th><th>Author</th><th>Cost</th><th>ID</th></tr>''"

text \<open>Modelled from the spec: the end of the same page, with the submission form.\<close>

definition pageTail :: string where
  "pageTail = ''</table><form action=/submit method=post><input name=name><input name=author><input name=cost><input type=submit></form></body></html>''"

text \<open>Modelled from the spec: one field of a record in the page, escaped.\<close>

definition cell :: "string \<Rightarrow> string" where
  "cell field = ''<td>'' @ htmlEscape field @ ''</td>''"

text \<open>Modelled from the spec: the table row of one record, all four fields.\<close>

definition renderBook :: "(float64 \<Rightarrow> string) \<Rightarrow> Book \<Rightarrow> string" where
  "renderBook fmt b =
     ''<tr>'' @ cell (Name b) @ cell (Author b) @ cell (fmt (Cost b)) @ cell (Hex (ID b)) @ ''</tr>''"

text \<open>Modelled from the spec: the page for a sequence of records.\<close>

definition renderPage :: "(float64 \<Rightarrow> string) \<Rightarrow> Book list \<Rightarrow> string" where
  "renderPage fmt books = pageHead @ concat (map (renderBook fmt) books) @ pageTail"

text \<open>
  \<open>handleIndex\<close>; \<open>tpl.Execute(w, data)\<close> writes the page with status 200. The
  printing of a \<open>float64\<close> is passed on to the page.
\<close>

definition handleIndex :: "(float64 \<Rightarrow> string) \<Rightarrow> Env \<Rightarrow> Request \<Rightarrow> Store \<Rightarrow> Response \<times> Store" where
  "handleIndex fmt env r st =
     (if Method r \<noteq> ''GET'' then (httpError ''Method not allowed'' StatusMethodNotAllowed, st)
      else case getBooks env st of
             (Inl err, st') \<Rightarrow> (httpError ''Failed to get books'' StatusInternalServerError, st')
           | (Inr books, st') \<Rightarrow> (ok (renderPage fmt books), st'))"

subsection \<open>Sample requests and collections\<close>

definition formOf :: "(string \<times> string) list \<Rightarrow> string \<Rightarrow> string list" where
  "formOf kvs key = map snd (filter (\<lambda>kv. fst kv = key) kvs)"

definition post :: "(string \<times> string) list \<Rightarrow> Request" where
  "post kvs = \<lparr>Method = ''POST'', Form = formOf kvs\<rparr>"

definition oidA :: ObjectID where
  "oidA = [1, 2, 3, 4, 5, 6, 7, 8, 9, 10, 11, 12]"

definition oidB :: ObjectID where
  "oidB = [170, 170, 170, 170, 170, 170, 170, 170, 170, 170, 170, 170]"

definition hexA :: string where
  "hexA = ''0102030405060708090a0b0c''"

definition hexB :: string where
  "hexB = ''aaaaaaaaaaaaaaaaaaaaaaaa''"

definition envUp :: Env where
  "envUp = \<lparr>newObjectID = oidA, driverObjectID = oidB, driver = Answered\<rparr>"

definition envDown :: Env where
  "envDown = \<lparr>newObjectID = oidA, driverObjectID = oidB, driver = Unreachable\<rparr>"

definition emptyStore :: Store where
  "emptyStore = \<lparr>docs = [], calls = []\<rparr>"

definition dune :: Book where
  "dune = \<lparr>ID = oidA, Name = ''Dune'', Author = ''Herbert'', Cost = Finite False (25 / 2)\<rparr>"

definition oneBook :: Store where
  "oneBook = \<lparr>docs = [dune], calls = []\<rparr>"

definition reqSubmit :: Request where
  "reqSubmit = post [(''name'', ''Dune''), (''author'', ''Herbert''), (''cost'', ''12.50'')]"

definition reqSubmitNegative :: Request where
  "reqSubmitNegative = post [(''name'', ''Dune''), (''author'', ''Herbert''), (''cost'', ''-5'')]"

definition reqSubmitBadCost :: Request where
  "reqSubmitBadCost = post [(''name'', ''Dune''), (''author'', ''Herbert''), (''cost'', ''abc'')]"

definition reqDeleteA :: Request where
  "reqDeleteA = post [(''id'', hexA)]"

definition reqDeleteB :: Request where
  "reqDeleteB = post [(''id'', hexB)]"

definition reqNoId :: Request where
  "reqNoId = post [(''name'', ''Emma''), (''author'', ''Austen''), (''cost'', ''7'')]"

definition reqModifyA :: Request where
  "reqModifyA = post [(''id'', hexA), (''name'', ''Emma''), (''author'', ''Austen''), (''cost'', ''7'')]"

definition reqModifyB :: Request where
  "reqModifyB = post [(''id'', hexB), (''name'', ''Emma''), (''author'', ''Austen''), (''cost'', ''7'')]"

definition reqModifyBadIdBadCost :: Request where
  "reqModifyBadIdBadCost = post [(''id'', ''xyz''), (''name'', ''Emma''), (''author'', ''Austen''), (''cost'', ''abc'')]"

definition reqGet :: Request where
  "reqGet = \<lparr>Method = ''GET'', Form = (\<lambda>key. [])\<rparr>"

definition reqModifyABadCost :: Request where
  "reqModifyABadCost = post [(''id'', hexA), (''name'', ''Emma''), (''author'', ''Austen''), (''cost'', ''abc'')]"

definition twoBooks :: Store where
  "twoBooks =
     \<lparr>docs = [dune, \<lparr>ID = oidB, Name = ''Persuasion'', Author = ''Austen'', Cost = Finite False 9\<rparr>],
      calls = []\<rparr>"

definition negativeBook :: Book where
  "negativeBook = \<lparr>ID = oidA, Name = ''Dune'', Author = ''Herbert'', Cost = Finite True 5\<rparr>"

definition htmlBook :: Book where
  "htmlBook = \<lparr>ID = oidA, Name = ''<b>X</b>'', Author = ''A&B'', Cost = Finite False 7\<rparr>"

definition htmlStore :: Store where
  "htmlStore = \<lparr>docs = [htmlBook], calls = []\<rparr>"

definition showSeven :: "float64 \<Rightarrow> string" where
  "showSeven x = ''7''"

section \<open>Properties\<close>

subsection \<open>Auxiliary facts\<close>

lemma cursorLoop_append [simp]: "cursorLoop cursor books = books @ cursor"
  by (induction cursor arbitrary: books) auto

lemma ObjectIDFromHex_nonempty: "ObjectIDFromHex s = Some i \<Longrightarrow> s \<noteq> []"
  by (auto simp: ObjectIDFromHex_def split: if_splits)

lemma ObjectIDFromHex_empty: "ObjectIDFromHex [] = None"
  by (simp add: ObjectIDFromHex_def)

lemma deleteFirst_absent: "i \<notin> set (ids bs) \<Longrightarrow> deleteFirst i bs = (0, bs)"
  by (induction bs) (auto simp: ids_def)

lemma deleteFirst_present:
  "i \<in> set (ids bs) \<Longrightarrow> distinct (ids bs) \<Longrightarrow> deleteFirst i bs = (1, filter (\<lambda>b. ID b \<noteq> i) bs)"
proof (induction bs)
  case Nil
  then show ?case by (simp add: ids_def)
next
  case (Cons b bs)
  show ?case
  proof (cases "ID b = i")
    case True
    with Cons.prems have "i \<notin> ID ` set bs" by (auto simp: ids_def)
    then have "filter (\<lambda>b. ID b \<noteq> i) bs = bs" by (auto simp: filter_id_conv)
    with True show ?thesis by simp
  next
    case False
    with Cons show ?thesis by (auto simp: ids_def)
  qed
qed

lemma deleteFirst_subset: "set (snd (deleteFirst i bs)) \<subseteq> set bs"
  by (induction bs) (auto split: prod.splits)

lemma filter_one_less:
  "i \<in> set (ids bs) \<Longrightarrow> distinct (ids bs) \<Longrightarrow> Suc (length (filter (\<lambda>b. ID b \<noteq> i) bs)) = length bs"
proof (induction bs)
  case Nil
  then show ?case by (simp add: ids_def)
next
  case (Cons b bs)
  show ?case
  proof (cases "ID b = i")
    case True
    with Cons.prems have "i \<notin> ID ` set bs" by (auto simp: ids_def)
    then have "filter (\<lambda>b. ID b \<noteq> i) bs = bs" by (auto simp: filter_id_conv)
    with True show ?thesis by simp
  next
    case False
    with Cons show ?thesis by (auto simp: ids_def)
  qed
qed

lemma updateFirst_ids: "ids (snd (updateFirst i n a c bs)) = ids bs"
  by (induction bs) (auto simp: ids_def split: prod.splits)

lemma updateFirst_ids_eq: "updateFirst i n a c bs = (k, bs') \<Longrightarrow> ids bs' = ids bs"
  using updateFirst_ids [of i n a c bs] by simp

lemma deleteFirst_mem: "deleteFirst i bs = (k, bs') \<Longrightarrow> x \<in> set bs' \<Longrightarrow> x \<in> set bs"
  using deleteFirst_subset [of i bs] by auto

lemma updateFirst_absent: "i \<notin> set (ids bs) \<Longrightarrow> updateFirst i n a c bs = (0, bs)"
  by (induction bs) (auto simp: ids_def)

lemma updateFirst_present:
  "i \<in> set (ids bs) \<Longrightarrow>
   \<exists>j<length bs. ID (bs ! j) = i \<and>
      updateFirst i n a c bs = (1, bs[j := (bs ! j)\<lparr>Name := n, Author := a, Cost := c\<rparr>])"
proof (induction bs)
  case Nil
  then show ?case by (simp add: ids_def)
next
  case (Cons b bs)
  show ?case
  proof (cases "ID b = i")
    case True
    then have "ID ((b # bs) ! 0) = i \<and>
      updateFirst i n a c (b # bs) = (1, (b # bs)[0 := ((b # bs) ! 0)\<lparr>Name := n, Author := a, Cost := c\<rparr>])"
      by simp
    then show ?thesis by blast
  next
    case False
    with Cons.prems have "i \<in> set (ids bs)" by (auto simp: ids_def)
    from Cons.IH [OF this] obtain j where j: "j < length bs" "ID (bs ! j) = i"
      "updateFirst i n a c bs = (1, bs[j := (bs ! j)\<lparr>Name := n, Author := a, Cost := c\<rparr>])"
      by blast
    with False have "Suc j < length (b # bs) \<and> ID ((b # bs) ! Suc j) = i \<and>
      updateFirst i n a c (b # bs) =
        (1, (b # bs)[Suc j := ((b # bs) ! Suc j)\<lparr>Name := n, Author := a, Cost := c\<rparr>])"
      by simp
    then show ?thesis by blast
  qed
qed

lemma response_distinct [simp]:
  "ok t \<noteq> httpError m StatusBadRequest"
  "ok t \<noteq> httpError m StatusInternalServerError"
  "ok t \<noteq> httpError m StatusMethodNotAllowed"
  "httpError m StatusBadRequest \<noteq> ok t"
  "httpError m StatusInternalServerError \<noteq> ok t"
  "httpError m StatusMethodNotAllowed \<noteq> ok t"
  by (simp_all add: ok_def httpError_def StatusBadRequest_def StatusInternalServerError_def
      StatusMethodNotAllowed_def)

lemma httpError_eq [simp]: "httpError m c = httpError m' c' \<longleftrightarrow> m = m' \<and> c = c'"
  by (auto simp: httpError_def)

lemma deleteFirst_distinct:
  "deleteFirst i bs = (k, bs') \<Longrightarrow> distinct (ids bs) \<Longrightarrow> distinct (ids bs')"
proof (induction bs arbitrary: k bs')
  case Nil
  then show ?case by (simp add: ids_def)
next
  case (Cons b bs)
  show ?case
  proof (cases "ID b = i")
    case True
    with Cons.prems show ?thesis by (simp add: ids_def)
  next
    case False
    obtain k' rest where rest: "deleteFirst i bs = (k', rest)"
      by (cases "deleteFirst i bs")
    with False Cons.prems(1) have bs': "bs' = b # rest" by simp
    have "distinct (ids rest)"
      using Cons.IH [OF rest] Cons.prems(2) by (simp add: ids_def)
    moreover have "ID b \<notin> set (ids rest)"
      using Cons.prems(2) deleteFirst_mem [OF rest] by (auto simp: ids_def)
    ultimately show ?thesis
      using bs' by (simp add: ids_def)
  qed
qed

text \<open>
  The ids of the collection stay unique: no handler brings in a second document with an
  id that is already there.
\<close>

lemma unique_ids_preserved:
  assumes "distinct (ids (docs st))"
  shows "distinct (ids (docs (snd (handleSubmit env r st))))"
    and "distinct (ids (docs (snd (handleDelete env r st))))"
    and "distinct (ids (docs (snd (handleModify env r st))))"
proof -
  show "distinct (ids (docs (snd (handleSubmit env r st))))"
    using assms
    by (auto simp: handleSubmit_def InsertOne_def Let_def ids_def split: sum.splits)
  show "distinct (ids (docs (snd (handleDelete env r st))))"
    using assms
    by (auto simp: handleDelete_def DeleteOne_def Let_def
        split: option.splits sum.splits prod.splits dest: deleteFirst_distinct)
  show "distinct (ids (docs (snd (handleModify env r st))))"
    using assms
    by (auto simp: handleModify_def UpdateOne_def Let_def
        split: option.splits sum.splits prod.splits dest: updateFirst_ids_eq)
qed

text \<open>The sample inputs, evaluated.\<close>

lemma sample_methods:
  "Method reqSubmit = ''POST''" "Method reqSubmitNegative = ''POST''"
  "Method reqSubmitBadCost = ''POST''" "Method reqDeleteA = ''POST''"
  "Method reqDeleteB = ''POST''" "Method reqNoId = ''POST''" "Method reqModifyA = ''POST''"
  "Method reqModifyB = ''POST''" "Method reqModifyBadIdBadCost = ''POST''"
  by (simp_all add: reqSubmit_def reqSubmitNegative_def reqSubmitBadCost_def reqDeleteA_def
      reqDeleteB_def reqNoId_def reqModifyA_def reqModifyB_def reqModifyBadIdBadCost_def post_def)

lemma sample_ids:
  "ObjectIDFromHex (FormValue reqDeleteA ''id'') = Some oidA"
  "ObjectIDFromHex (FormValue reqDeleteB ''id'') = Some oidB"
  "ObjectIDFromHex (FormValue reqModifyA ''id'') = Some oidA"
  "ObjectIDFromHex (FormValue reqModifyB ''id'') = Some oidB"
  "ObjectIDFromHex (FormValue reqModifyBadIdBadCost ''id'') = None"
  "FormValue reqNoId ''id'' = []"
  by code_simp+

lemma sample_costs:
  "ParseFloat (FormValue reqSubmit ''cost'') = Inr (Finite False (25 / 2))"
  "ParseFloat (FormValue reqSubmitNegative ''cost'') = Inr (Finite True 5)"
  "ParseFloat (FormValue reqSubmitBadCost ''cost'') = Inl ErrSyntax"
  "ParseFloat (FormValue reqModifyA ''cost'') = Inr (Finite False 7)"
  "ParseFloat (FormValue reqModifyB ''cost'') = Inr (Finite False 7)"
  "ParseFloat (FormValue reqModifyBadIdBadCost ''cost'') = Inl ErrSyntax"
  by code_simp+

lemma sample_fields:
  "FormValue reqSubmit ''name'' = ''Dune''" "FormValue reqSubmit ''author'' = ''Herbert''"
  "FormValue reqSubmitNegative ''name'' = ''Dune''"
  "FormValue reqSubmitNegative ''author'' = ''Herbert''"
  "FormValue reqModifyA ''name'' = ''Emma''" "FormValue reqModifyA ''author'' = ''Austen''"
  "FormValue reqModifyB ''name'' = ''Emma''" "FormValue reqModifyB ''author'' = ''Austen''"
  by code_simp+

lemma sample_oids: "oidA \<noteq> oidB" "oidA \<noteq> NilObjectID" "oidB \<noteq> NilObjectID"
  by (simp_all add: oidA_def oidB_def NilObjectID_def)

subsection \<open>The claims\<close>

text \<open>
  C8. A \<open>POST /delete\<close> or \<open>POST /modify\<close> request whose \<open>id\<close> field is missing or
  empty is answered with 400 "Invalid book ID", and the store comes back as it was: its
  documents are the same and no driver call has been logged, so none was attempted.
\<close>

theorem missing_id_rejected:
  assumes "Method r = ''POST''" and "FormValue r ''id'' = []"
  shows "handleDelete env r st = (httpError ''Invalid book ID'' StatusBadRequest, st)
       \<and> handleModify env r st = (httpError ''Invalid book ID'' StatusBadRequest, st)"
  using assms by (simp add: handleDelete_def handleModify_def)

theorem missing_id_rejected_witness:
  "Method reqNoId = ''POST'' \<and> FormValue reqNoId ''id'' = []
   \<and> handleDelete envUp reqNoId oneBook = (httpError ''Invalid book ID'' StatusBadRequest, oneBook)
   \<and> handleModify envUp reqNoId oneBook = (httpError ''Invalid book ID'' StatusBadRequest, oneBook)"
  using missing_id_rejected [OF sample_methods(6) sample_ids(6), of envUp oneBook]
    sample_methods(6) sample_ids(6)
  by simp

text \<open>
  C2. A \<open>POST /modify\<close> request with a well-formed id and a parseable cost, whose
  \<open>UpdateOne\<close> call does not fail, is answered with the 200 fragment "Book modified
  successfully!", whether or not the id matches a record: \<open>MatchedCount\<close> is not looked
  at. When the id matches nothing the documents stay as they were.
\<close>

theorem modify_reports_success_without_match:
  assumes "Method r = ''POST''"
    and "ObjectIDFromHex (FormValue r ''id'') = Some objID"
    and "ParseFloat (FormValue r ''cost'') = Inr bookCost"
    and "driver env = Answered"
  shows "fst (handleModify env r st) = ok modifiedFragment
       \<and> (objID \<notin> set (ids (docs st)) \<longrightarrow> docs (snd (handleModify env r st)) = docs st)"
  using assms ObjectIDFromHex_nonempty [OF assms(2)]
  by (auto simp: handleModify_def UpdateOne_def Let_def updateFirst_absent split: prod.splits)

theorem modify_reports_success_without_match_witness:
  "Method reqModifyB = ''POST''
   \<and> ObjectIDFromHex (FormValue reqModifyB ''id'') = Some oidB
   \<and> ParseFloat (FormValue reqModifyB ''cost'') = Inr (Finite False 7)
   \<and> driver envUp = Answered
   \<and> oidB \<notin> set (ids (docs oneBook))
   \<and> fst (handleModify envUp reqModifyB oneBook) = ok modifiedFragment
   \<and> docs (snd (handleModify envUp reqModifyB oneBook)) = docs oneBook"
proof -
  have up: "driver envUp = Answered" by (simp add: envUp_def)
  have absent: "oidB \<notin> set (ids (docs oneBook))"
    using sample_oids(1) by (simp add: oneBook_def ids_def dune_def)
  from modify_reports_success_without_match
    [OF sample_methods(8) sample_ids(4) sample_costs(5) up, of oneBook]
  show ?thesis
    using sample_methods(8) sample_ids(4) sample_costs(5) up absent by simp
qed

text \<open>
  C10. In \<open>handleModify\<close> the id is checked before the cost. A \<open>POST /modify\<close> request
  whose id is missing or is not 24 hexadecimal digits is answered with 400 "Invalid book
  ID" and the store is untouched, whatever the cost field holds: replacing the cost field
  by any other values gives the same result. The answer 400 "Invalid cost" is only given
  to a request whose id is present and well-formed.
\<close>

theorem id_validation_precedes_cost:
  "(Method r = ''POST'' \<and> (FormValue r ''id'' = [] \<or> ObjectIDFromHex (FormValue r ''id'') = None)
      \<longrightarrow> handleModify env r st = (httpError ''Invalid book ID'' StatusBadRequest, st)
        \<and> handleModify env (r\<lparr>Form := (Form r)(''cost'' := v)\<rparr>) st = handleModify env r st)
   \<and> (fst (handleModify env r st) = httpError ''Invalid cost'' StatusBadRequest
      \<longrightarrow> FormValue r ''id'' \<noteq> [] \<and> (\<exists>i. ObjectIDFromHex (FormValue r ''id'') = Some i))"
  by (auto simp: handleModify_def FormValue_def Let_def
      split: option.splits sum.splits prod.splits if_splits)

theorem id_validation_precedes_cost_witness:
  "Method reqModifyBadIdBadCost = ''POST''
   \<and> ObjectIDFromHex (FormValue reqModifyBadIdBadCost ''id'') = None
   \<and> ParseFloat (FormValue reqModifyBadIdBadCost ''cost'') = Inl ErrSyntax
   \<and> handleModify envUp reqModifyBadIdBadCost oneBook
       = (httpError ''Invalid book ID'' StatusBadRequest, oneBook)
   \<and> handleModify envUp (reqModifyBadIdBadCost\<lparr>Form := (Form reqModifyBadIdBadCost)(''cost'' := [''7''])\<rparr>) oneBook
       = handleModify envUp reqModifyBadIdBadCost oneBook
   \<and> fst (handleModify envUp reqModifyABadCost oneBook) = httpError ''Invalid cost'' StatusBadRequest
   \<and> FormValue reqModifyABadCost ''id'' \<noteq> []
   \<and> (\<exists>i. ObjectIDFromHex (FormValue reqModifyABadCost ''id'') = Some i)"
proof -
  have bad: "fst (handleModify envUp reqModifyABadCost oneBook)
      = httpError ''Invalid cost'' StatusBadRequest"
    by code_simp
  from id_validation_precedes_cost [of reqModifyBadIdBadCost envUp oneBook "[''7'']"]
    id_validation_precedes_cost [of reqModifyABadCost envUp oneBook "[]"]
  show ?thesis
    using sample_methods(9) sample_ids(5) sample_costs(6) bad by simp
qed

text \<open>
  C1. As stated the claim fails: the insert of a create request whose cost parses need
  not succeed. When the database cannot be reached, \<open>InsertOne\<close> returns an error and
  the handler answers 500 "Failed to insert book"; nothing is stored, and the list that
  follows does not show the record.
\<close>

theorem submit_may_fail_counterexample:
  "Method reqSubmit = ''POST''
   \<and> ParseFloat (FormValue reqSubmit ''cost'') = Inr (Finite False (25 / 2))
   \<and> fst (handleSubmit envDown reqSubmit emptyStore)
       = httpError ''Failed to insert book'' StatusInternalServerError
   \<and> docs (snd (handleSubmit envDown reqSubmit emptyStore)) = []
   \<and> fst (getBooks envUp (snd (handleSubmit envDown reqSubmit emptyStore))) = Inr []"
  by code_simp

text \<open>
  C1, amended. For a \<open>POST /submit\<close> request whose cost parses, if \<open>InsertOne\<close> returns
  no error, the answer is the 200 fragment "Book added successfully!" and the collection
  has exactly one more document: it holds the submitted name and author and the parsed
  cost, its id is the one \<open>InsertOne\<close> returned, and that id is the id of no document
  that was there before. A list that follows, if its driver call does not fail, has the
  document among its results.
\<close>

theorem submit_stores_record:
  assumes "Method r = ''POST''"
    and "ParseFloat (FormValue r ''cost'') = Inr c"
    and "fst (InsertOne env
           \<lparr>ID = newObjectID env, Name = FormValue r ''name'',
            Author = FormValue r ''author'', Cost = c\<rparr> st) = Inr i"
    and "driver env' = Answered"
  shows "fst (handleSubmit env r st) = ok addedFragment
       \<and> (\<exists>b. docs (snd (handleSubmit env r st)) = docs st @ [b]
              \<and> Name b = FormValue r ''name'' \<and> Author b = FormValue r ''author''
              \<and> Cost b = c \<and> ID b = i \<and> i \<notin> set (ids (docs st))
              \<and> (\<exists>books. fst (getBooks env' (snd (handleSubmit env r st))) = Inr books
                         \<and> b \<in> set books))"
  using assms
  by (auto simp: handleSubmit_def InsertOne_def getBooks_def Let_def split: if_splits)

theorem submit_stores_record_witness:
  "Method reqSubmit = ''POST''
   \<and> ParseFloat (FormValue reqSubmit ''cost'') = Inr (Finite False (25 / 2))
   \<and> fst (InsertOne envUp
        \<lparr>ID = newObjectID envUp, Name = FormValue reqSubmit ''name'',
         Author = FormValue reqSubmit ''author'', Cost = Finite False (25 / 2)\<rparr> emptyStore) = Inr oidA
   \<and> driver envUp = Answered
   \<and> fst (handleSubmit envUp reqSubmit emptyStore) = ok addedFragment
   \<and> (\<exists>b. docs (snd (handleSubmit envUp reqSubmit emptyStore)) = docs emptyStore @ [b]
          \<and> Name b = FormValue reqSubmit ''name'' \<and> Author b = FormValue reqSubmit ''author''
          \<and> Cost b = Finite False (25 / 2) \<and> ID b = oidA \<and> oidA \<notin> set (ids (docs emptyStore))
          \<and> (\<exists>books. fst (getBooks envUp (snd (handleSubmit envUp reqSubmit emptyStore))) = Inr books
                     \<and> b \<in> set books))"
proof -
  have up: "driver envUp = Answered" by (simp add: envUp_def)
  have ins: "fst (InsertOne envUp
        \<lparr>ID = newObjectID envUp, Name = FormValue reqSubmit ''name'',
         Author = FormValue reqSubmit ''author'', Cost = Finite False (25 / 2)\<rparr> emptyStore) = Inr oidA"
    by code_simp
  from submit_stores_record [OF sample_methods(1) sample_costs(1) ins up]
  show ?thesis
    using sample_methods(1) sample_costs(1) ins up by simp
qed

text \<open>
  C5. As stated the claim fails: a delete of an id that matches no record can be answered
  with an error. When the database cannot be reached, \<open>DeleteOne\<close> returns an error
  and the handler answers 500 "Failed to delete book".
\<close>

theorem delete_absent_may_fail_counterexample:
  "Method reqDeleteB = ''POST''
   \<and> ObjectIDFromHex (FormValue reqDeleteB ''id'') = Some oidB
   \<and> oidB \<notin> set (ids (docs oneBook))
   \<and> fst (handleDelete envDown reqDeleteB oneBook)
       = httpError ''Failed to delete book'' StatusInternalServerError
   \<and> fst (handleDelete envDown reqDeleteB oneBook) \<noteq> ok notFoundFragment"
  by code_simp

text \<open>
  C5, amended. For a \<open>POST /delete\<close> request with a well-formed id that matches no
  record, if the \<open>DeleteOne\<close> call does not fail, the answer is the 200 fragment "Book
  not found!" and the collection is unchanged: the same documents, the same count.
\<close>

theorem delete_absent_not_found:
  assumes "Method r = ''POST''"
    and "ObjectIDFromHex (FormValue r ''id'') = Some objID"
    and "objID \<notin> set (ids (docs st))"
    and "driver env = Answered"
  shows "fst (handleDelete env r st) = ok notFoundFragment
       \<and> docs (snd (handleDelete env r st)) = docs st
       \<and> length (docs (snd (handleDelete env r st))) = length (docs st)"
  using assms ObjectIDFromHex_nonempty [OF assms(2)]
  by (simp add: handleDelete_def DeleteOne_def Let_def deleteFirst_absent)

theorem delete_absent_not_found_witness:
  "Method reqDeleteB = ''POST''
   \<and> ObjectIDFromHex (FormValue reqDeleteB ''id'') = Some oidB
   \<and> oidB \<notin> set (ids (docs oneBook))
   \<and> driver envUp = Answered
   \<and> fst (handleDelete envUp reqDeleteB oneBook) = ok notFoundFragment
   \<and> docs (snd (handleDelete envUp reqDeleteB oneBook)) = docs oneBook
   \<and> length (docs (snd (handleDelete envUp reqDeleteB oneBook))) = length (docs oneBook)"
proof -
  have up: "driver envUp = Answered" by (simp add: envUp_def)
  have absent: "oidB \<notin> set (ids (docs oneBook))"
    using sample_oids(1) by (simp add: oneBook_def ids_def dune_def)
  from delete_absent_not_found [OF sample_methods(5) sample_ids(2) absent up]
  show ?thesis
    using sample_methods(5) sample_ids(2) absent up by simp
qed

text \<open>
  C6. As stated the claim fails: the first delete of an id that is in the store need not
  remove the record. When the database cannot be reached, \<open>DeleteOne\<close> returns an
  error, the handler answers 500 "Failed to delete book" and the record is still there.
\<close>

theorem delete_present_may_fail_counterexample:
  "Method reqDeleteA = ''POST''
   \<and> ObjectIDFromHex (FormValue reqDeleteA ''id'') = Some oidA
   \<and> oidA \<in> set (ids (docs oneBook))
   \<and> fst (handleDelete envDown reqDeleteA oneBook)
       = httpError ''Failed to delete book'' StatusInternalServerError
   \<and> fst (handleDelete envDown reqDeleteA oneBook) \<noteq> ok deletedFragment
   \<and> docs (snd (handleDelete envDown reqDeleteA oneBook)) = docs oneBook"
  by code_simp

text \<open>
  C6, amended. In a collection whose ids are unique, for an id that is in the store, if
  neither \<open>DeleteOne\<close> call fails: the first \<open>POST /delete\<close> with that id removes exactly
  the record with that id (the other documents stay, in their order, and the count goes
  down by one) and reports "Book deleted successfully!"; the same request again removes
  nothing and reports "Book not found!".
\<close>

theorem delete_twice:
  assumes "Method r = ''POST''"
    and "ObjectIDFromHex (FormValue r ''id'') = Some objID"
    and "objID \<in> set (ids (docs st))"
    and "distinct (ids (docs st))"
    and "driver env = Answered" and "driver env' = Answered"
  shows "fst (handleDelete env r st) = ok deletedFragment
       \<and> docs (snd (handleDelete env r st)) = filter (\<lambda>b. ID b \<noteq> objID) (docs st)
       \<and> Suc (length (docs (snd (handleDelete env r st)))) = length (docs st)
       \<and> fst (handleDelete env' r (snd (handleDelete env r st))) = ok notFoundFragment
       \<and> docs (snd (handleDelete env' r (snd (handleDelete env r st))))
           = docs (snd (handleDelete env r st))"
proof -
  let ?rest = "filter (\<lambda>b. ID b \<noteq> objID) (docs st)"
  let ?st1 = "st\<lparr>calls := calls st @ [CallDeleteOne objID], docs := ?rest\<rparr>"
  have ne: "FormValue r ''id'' \<noteq> []"
    using assms(2) by (rule ObjectIDFromHex_nonempty)
  have first: "handleDelete env r st = (ok deletedFragment, ?st1)"
    using assms ne
    by (simp add: handleDelete_def DeleteOne_def Let_def deleteFirst_present)
  have gone: "objID \<notin> set (ids ?rest)"
    by (auto simp: ids_def)
  have second: "handleDelete env' r ?st1
      = (ok notFoundFragment, ?st1\<lparr>calls := calls ?st1 @ [CallDeleteOne objID]\<rparr>)"
    using assms(1,2,6) ne gone
    by (simp add: handleDelete_def DeleteOne_def Let_def deleteFirst_absent)
  show ?thesis
    using first second filter_one_less [OF assms(3,4)] by simp
qed

theorem delete_twice_witness:
  "Method reqDeleteA = ''POST''
   \<and> ObjectIDFromHex (FormValue reqDeleteA ''id'') = Some oidA
   \<and> oidA \<in> set (ids (docs twoBooks))
   \<and> distinct (ids (docs twoBooks))
   \<and> driver envUp = Answered
   \<and> fst (handleDelete envUp reqDeleteA twoBooks) = ok deletedFragment
   \<and> docs (snd (handleDelete envUp reqDeleteA twoBooks))
       = filter (\<lambda>b. ID b \<noteq> oidA) (docs twoBooks)
   \<and> Suc (length (docs (snd (handleDelete envUp reqDeleteA twoBooks)))) = length (docs twoBooks)
   \<and> fst (handleDelete envUp reqDeleteA (snd (handleDelete envUp reqDeleteA twoBooks)))
       = ok notFoundFragment
   \<and> docs (snd (handleDelete envUp reqDeleteA (snd (handleDelete envUp reqDeleteA twoBooks))))
       = docs (snd (handleDelete envUp reqDeleteA twoBooks))"
proof -
  have up: "driver envUp = Answered" by (simp add: envUp_def)
  have present: "oidA \<in> set (ids (docs twoBooks))"
    by (simp add: twoBooks_def ids_def dune_def)
  have uniq: "distinct (ids (docs twoBooks))"
    using sample_oids(1) by (simp add: twoBooks_def ids_def dune_def)
  from delete_twice [OF sample_methods(4) sample_ids(1) present uniq up up]
  show ?thesis
    using sample_methods(4) sample_ids(1) present uniq up by blast
qed

text \<open>
  C7. As stated the claim fails: a modify request for an id that is in the store, with
  valid fields, need not overwrite the record. When the database cannot be reached,
  \<open>UpdateOne\<close> returns an error, the handler answers 500 "Failed to update book" and
  the record keeps its fields.
\<close>

theorem modify_may_fail_counterexample:
  "Method reqModifyA = ''POST''
   \<and> ObjectIDFromHex (FormValue reqModifyA ''id'') = Some oidA
   \<and> ParseFloat (FormValue reqModifyA ''cost'') = Inr (Finite False 7)
   \<and> oidA \<in> set (ids (docs oneBook))
   \<and> fst (handleModify envDown reqModifyA oneBook)
       = httpError ''Failed to update book'' StatusInternalServerError
   \<and> docs (snd (handleModify envDown reqModifyA oneBook)) = [dune]
   \<and> Name dune \<noteq> FormValue reqModifyA ''name''"
  by code_simp

text \<open>
  C7, amended. For a \<open>POST /modify\<close> request with an id that is in the store and a cost
  that parses, if the \<open>UpdateOne\<close> call does not fail, the answer is "Book modified
  successfully!" and the documents afterwards are the documents before with one position
  changed: there stood a record with the given id, and there now stands that record with
  its name, author and cost set to the submitted values. Its id, and every other record,
  is unchanged.
\<close>

theorem modify_overwrites_one_record:
  assumes "Method r = ''POST''"
    and "ObjectIDFromHex (FormValue r ''id'') = Some objID"
    and "ParseFloat (FormValue r ''cost'') = Inr c"
    and "objID \<in> set (ids (docs st))"
    and "driver env = Answered"
  shows "fst (handleModify env r st) = ok modifiedFragment
       \<and> ids (docs (snd (handleModify env r st))) = ids (docs st)
       \<and> (\<exists>j<length (docs st). ID (docs st ! j) = objID
            \<and> docs (snd (handleModify env r st))
                = (docs st)[j := (docs st ! j)\<lparr>Name := FormValue r ''name'',
                                               Author := FormValue r ''author'', Cost := c\<rparr>])"
proof -
  let ?n = "FormValue r ''name''" and ?a = "FormValue r ''author''"
  have ne: "FormValue r ''id'' \<noteq> []"
    using assms(2) by (rule ObjectIDFromHex_nonempty)
  from updateFirst_present [OF assms(4), of ?n ?a c]
  obtain j where j: "j < length (docs st)" "ID (docs st ! j) = objID"
    "updateFirst objID ?n ?a c (docs st)
       = (1, (docs st)[j := (docs st ! j)\<lparr>Name := ?n, Author := ?a, Cost := c\<rparr>])"
    by blast
  have run: "handleModify env r st
      = (ok modifiedFragment,
         st\<lparr>calls := calls st @ [CallUpdateOne objID ?n ?a c],
            docs := (docs st)[j := (docs st ! j)\<lparr>Name := ?n, Author := ?a, Cost := c\<rparr>]\<rparr>)"
    using assms(1,2,3,5) ne j(3)
    by (simp add: handleModify_def UpdateOne_def Let_def)
  have same: "ids ((docs st)[j := (docs st ! j)\<lparr>Name := ?n, Author := ?a, Cost := c\<rparr>]) = ids (docs st)"
    using updateFirst_ids [of objID ?n ?a c "docs st"] j(3) by simp
  show ?thesis
    using run same j(1,2) by auto
qed

theorem modify_overwrites_one_record_witness:
  "Method reqModifyA = ''POST''
   \<and> ObjectIDFromHex (FormValue reqModifyA ''id'') = Some oidA
   \<and> ParseFloat (FormValue reqModifyA ''cost'') = Inr (Finite False 7)
   \<and> oidA \<in> set (ids (docs twoBooks))
   \<and> driver envUp = Answered
   \<and> fst (handleModify envUp reqModifyA twoBooks) = ok modifiedFragment
   \<and> ids (docs (snd (handleModify envUp reqModifyA twoBooks))) = ids (docs twoBooks)
   \<and> (\<exists>j<length (docs twoBooks). ID (docs twoBooks ! j) = oidA
        \<and> docs (snd (handleModify envUp reqModifyA twoBooks))
            = (docs twoBooks)[j := (docs twoBooks ! j)\<lparr>Name := FormValue reqModifyA ''name'',
                 Author := FormValue reqModifyA ''author'', Cost := Finite False 7\<rparr>])"
proof -
  have up: "driver envUp = Answered" by (simp add: envUp_def)
  have present: "oidA \<in> set (ids (docs twoBooks))"
    by (simp add: twoBooks_def ids_def dune_def)
  from modify_overwrites_one_record [OF sample_methods(7) sample_ids(3) sample_costs(4) present up]
  show ?thesis
    using sample_methods(7) sample_ids(3) sample_costs(4) present up by simp
qed

text \<open>
  C3. As stated the claim fails: the create operation does not pass a record without an
  id to the insert. \<open>handleSubmit\<close> sets \<open>ID: primitive.NewObjectID()\<close> itself; the
  document the driver receives carries that id, and it is the id of the stored record,
  not one the driver or the store generates.
\<close>

theorem insert_receives_id_counterexample:
  "Method reqSubmit = ''POST''
   \<and> newObjectID envUp = oidA \<and> driverObjectID envUp = oidB \<and> oidA \<noteq> oidB
   \<and> calls (snd (handleSubmit envUp reqSubmit emptyStore)) = [CallInsertOne dune]
   \<and> ID dune = oidA \<and> ID dune \<noteq> NilObjectID
   \<and> docs (snd (handleSubmit envUp reqSubmit emptyStore)) = [dune]"
  by code_simp

text \<open>
  C3, amended. A record's id is generated by the create handler: for a \<open>POST /submit\<close>
  request whose cost parses, the document passed to the store's insert carries the id that
  \<open>primitive.NewObjectID()\<close> returned to the handler; when that id is not the zero id
  and the request succeeds, the record is stored under exactly that id, which no record
  had before. The id is immutable thereafter: a create only appends to the documents, a
  modify leaves the list of ids as it was, and every document left by a delete is a
  document from before.
\<close>

theorem id_assigned_by_handler:
  assumes "Method r = ''POST''" and "ParseFloat (FormValue r ''cost'') = Inr c"
  shows "calls (snd (handleSubmit env r st))
           = calls st @ [CallInsertOne \<lparr>ID = newObjectID env, Name = FormValue r ''name'',
                                        Author = FormValue r ''author'', Cost = c\<rparr>]
       \<and> (newObjectID env \<noteq> NilObjectID \<and> fst (handleSubmit env r st) = ok addedFragment
            \<longrightarrow> docs (snd (handleSubmit env r st))
                  = docs st @ [\<lparr>ID = newObjectID env, Name = FormValue r ''name'',
                                 Author = FormValue r ''author'', Cost = c\<rparr>]
              \<and> newObjectID env \<notin> set (ids (docs st)))
       \<and> (\<exists>bs. docs (snd (handleSubmit env r st)) = docs st @ bs)
       \<and> ids (docs (snd (handleModify env' r' st))) = ids (docs st)
       \<and> set (docs (snd (handleDelete env' r' st))) \<subseteq> set (docs st)"
proof -
  have submit: "calls (snd (handleSubmit env r st))
           = calls st @ [CallInsertOne \<lparr>ID = newObjectID env, Name = FormValue r ''name'',
                                        Author = FormValue r ''author'', Cost = c\<rparr>]"
    using assms by (simp add: handleSubmit_def InsertOne_def Let_def)
  have stored: "newObjectID env \<noteq> NilObjectID \<and> fst (handleSubmit env r st) = ok addedFragment
            \<longrightarrow> docs (snd (handleSubmit env r st))
                  = docs st @ [\<lparr>ID = newObjectID env, Name = FormValue r ''name'',
                                 Author = FormValue r ''author'', Cost = c\<rparr>]
              \<and> newObjectID env \<notin> set (ids (docs st))"
    using assms by (auto simp: handleSubmit_def InsertOne_def Let_def split: if_splits)
  have appended: "\<exists>bs. docs (snd (handleSubmit env r st)) = docs st @ bs"
    using assms by (simp add: handleSubmit_def InsertOne_def Let_def)
  have modify: "ids (docs (snd (handleModify env' r' st))) = ids (docs st)"
    by (auto simp: handleModify_def UpdateOne_def Let_def
        split: option.splits sum.splits prod.splits dest: updateFirst_ids_eq)
  have delete: "set (docs (snd (handleDelete env' r' st))) \<subseteq> set (docs st)"
    by (auto simp: handleDelete_def DeleteOne_def Let_def
        split: option.splits sum.splits prod.splits dest: deleteFirst_mem)
  show ?thesis
    using submit stored appended modify delete by blast
qed

theorem id_assigned_by_handler_witness:
  "Method reqSubmit = ''POST''
   \<and> ParseFloat (FormValue reqSubmit ''cost'') = Inr (Finite False (25 / 2))
   \<and> calls (snd (handleSubmit envUp reqSubmit emptyStore))
       = calls emptyStore @ [CallInsertOne \<lparr>ID = newObjectID envUp, Name = FormValue reqSubmit ''name'',
                                    Author = FormValue reqSubmit ''author'', Cost = Finite False (25 / 2)\<rparr>]
   \<and> newObjectID envUp \<noteq> NilObjectID
   \<and> fst (handleSubmit envUp reqSubmit emptyStore) = ok addedFragment
   \<and> docs (snd (handleSubmit envUp reqSubmit emptyStore))
       = docs emptyStore @ [\<lparr>ID = newObjectID envUp, Name = FormValue reqSubmit ''name'',
                      Author = FormValue reqSubmit ''author'', Cost = Finite False (25 / 2)\<rparr>]
   \<and> newObjectID envUp \<notin> set (ids (docs emptyStore))
   \<and> ids (docs (snd (handleModify envUp reqModifyA emptyStore))) = ids (docs emptyStore)
   \<and> set (docs (snd (handleDelete envUp reqDeleteA emptyStore))) \<subseteq> set (docs emptyStore)"
proof -
  have nonzero: "newObjectID envUp \<noteq> NilObjectID"
    using sample_oids(2) by (simp add: envUp_def)
  have added: "fst (handleSubmit envUp reqSubmit emptyStore) = ok addedFragment"
    by code_simp
  from id_assigned_by_handler
    [OF sample_methods(1) sample_costs(1), of envUp emptyStore envUp reqModifyA]
    id_assigned_by_handler
    [OF sample_methods(1) sample_costs(1), of envUp emptyStore envUp reqDeleteA]
  show ?thesis
    using sample_methods(1) sample_costs(1) nonzero added by blast
qed

text \<open>
  C4. As stated the claim fails: a record is stored also when the cost is not a
  non-negative number. \<open>ParseFloat\<close> accepts \<open>-5\<close>, the handlers make no check of their
  own, and the record is created with the negative cost.
\<close>

theorem negative_cost_stored_counterexample:
  "Method reqSubmitNegative = ''POST''
   \<and> FormValue reqSubmitNegative ''cost'' = ''-5''
   \<and> ParseFloat ''-5'' = Inr (Finite True 5)
   \<and> negative (Finite True 5)
   \<and> fst (handleSubmit envUp reqSubmitNegative emptyStore) = ok addedFragment
   \<and> docs (snd (handleSubmit envUp reqSubmitNegative emptyStore)) = [negativeBook]
   \<and> negative (Cost negativeBook)"
  by code_simp

text \<open>
  C4, amended. A record is stored or updated only when \<open>strconv.ParseFloat\<close> accepts the
  cost string: when it does not, \<open>handleSubmit\<close> and \<open>handleModify\<close> return the store as
  it was (the same documents and no driver call), and a \<open>POST\<close> request (for
  \<open>/modify\<close>, one with a well-formed id) is answered with 400 "Invalid cost". In
  particular \<open>12.50\<close> is accepted as 12.5 and \<open>abc\<close> is not accepted.
\<close>

theorem unparseable_cost_rejected:
  assumes "ParseFloat (FormValue r ''cost'') = Inl e"
  shows "snd (handleSubmit env r st) = st
       \<and> snd (handleModify env r st) = st
       \<and> (Method r = ''POST''
            \<longrightarrow> fst (handleSubmit env r st) = httpError ''Invalid cost'' StatusBadRequest)
       \<and> (Method r = ''POST'' \<and> ObjectIDFromHex (FormValue r ''id'') = Some i
            \<longrightarrow> fst (handleModify env r st) = httpError ''Invalid cost'' StatusBadRequest)
       \<and> ParseFloat ''12.50'' = Inr (Finite False (25 / 2))
       \<and> ParseFloat ''abc'' = Inl ErrSyntax"
proof -
  have twelve: "ParseFloat ''12.50'' = Inr (Finite False (25 / 2))"
    by code_simp
  have abc: "ParseFloat ''abc'' = Inl ErrSyntax"
    by code_simp
  have handlers: "snd (handleSubmit env r st) = st
       \<and> snd (handleModify env r st) = st
       \<and> (Method r = ''POST''
            \<longrightarrow> fst (handleSubmit env r st) = httpError ''Invalid cost'' StatusBadRequest)
       \<and> (Method r = ''POST'' \<and> ObjectIDFromHex (FormValue r ''id'') = Some i
            \<longrightarrow> fst (handleModify env r st) = httpError ''Invalid cost'' StatusBadRequest)"
    using assms
    by (auto simp: handleSubmit_def handleModify_def Let_def ObjectIDFromHex_empty
        split: option.splits)
  show ?thesis
    using twelve abc handlers by blast
qed

theorem unparseable_cost_rejected_witness:
  "ParseFloat (FormValue reqSubmitBadCost ''cost'') = Inl ErrSyntax
   \<and> Method reqSubmitBadCost = ''POST''
   \<and> snd (handleSubmit envUp reqSubmitBadCost oneBook) = oneBook
   \<and> fst (handleSubmit envUp reqSubmitBadCost oneBook) = httpError ''Invalid cost'' StatusBadRequest
   \<and> ParseFloat (FormValue reqModifyABadCost ''cost'') = Inl ErrSyntax
   \<and> Method reqModifyABadCost = ''POST''
   \<and> ObjectIDFromHex (FormValue reqModifyABadCost ''id'') = Some oidA
   \<and> snd (handleModify envUp reqModifyABadCost oneBook) = oneBook
   \<and> fst (handleModify envUp reqModifyABadCost oneBook) = httpError ''Invalid cost'' StatusBadRequest"
proof -
  have cost: "ParseFloat (FormValue reqModifyABadCost ''cost'') = Inl ErrSyntax"
    by code_simp
  have meth: "Method reqModifyABadCost = ''POST''"
    by (simp add: reqModifyABadCost_def post_def)
  have oid: "ObjectIDFromHex (FormValue reqModifyABadCost ''id'') = Some oidA"
    by code_simp
  from unparseable_cost_rejected [OF sample_costs(3), of envUp oneBook oidA]
    unparseable_cost_rejected [OF cost, of envUp oneBook oidA]
  show ?thesis
    using sample_costs(3) sample_methods(3) cost meth oid by blast
qed

lemma htmlEscapeByte_no_markup:
  "CHR ''<'' \<notin> set (htmlEscapeByte c)" "CHR ''>'' \<notin> set (htmlEscapeByte c)"
  "CHR 0x22 \<notin> set (htmlEscapeByte c)" "CHR 0x27 \<notin> set (htmlEscapeByte c)"
  by (simp_all add: htmlEscapeByte_def)

lemma htmlEscape_no_markup:
  "CHR ''<'' \<notin> set (htmlEscape s)" "CHR ''>'' \<notin> set (htmlEscape s)"
  "CHR 0x22 \<notin> set (htmlEscape s)" "CHR 0x27 \<notin> set (htmlEscape s)"
  by (simp_all add: htmlEscape_def htmlEscapeByte_no_markup)

lemma count_list_absent: "x \<notin> set xs \<Longrightarrow> count_list xs x = 0"
  by (induction xs) auto

lemma count_list_concat_const:
  "(\<And>x. x \<in> set xs \<Longrightarrow> count_list (f x) c = k) \<Longrightarrow> count_list (concat (map f xs)) c = k * length xs"
  by (induction xs) auto

lemma cell_lt: "count_list (cell s) (CHR ''<'') = 2"
  by (simp add: cell_def count_list_absent htmlEscape_no_markup)

lemma cell_gt: "count_list (cell s) (CHR ''>'') = 2"
  by (simp add: cell_def count_list_absent htmlEscape_no_markup)

lemma renderBook_lt: "count_list (renderBook fmt b) (CHR ''<'') = 10"
  by (simp add: renderBook_def cell_lt)

lemma renderBook_gt: "count_list (renderBook fmt b) (CHR ''>'') = 10"
  by (simp add: renderBook_def cell_gt)

lemma renderPage_lt:
  "count_list (renderPage fmt books) (CHR ''<'')
     = count_list pageHead (CHR ''<'') + 10 * length books + count_list pageTail (CHR ''<'')"
  by (simp add: renderPage_def count_list_concat_const [where k = 10] renderBook_lt)

lemma renderPage_gt:
  "count_list (renderPage fmt books) (CHR ''>'')
     = count_list pageHead (CHR ''>'') + 10 * length books + count_list pageTail (CHR ''>'')"
  by (simp add: renderPage_def count_list_concat_const [where k = 10] renderBook_gt)

lemma htmlUnescape_byte:
  "c \<noteq> CHR 0x00 \<Longrightarrow> htmlUnescape (htmlEscapeByte c @ rest) = c # htmlUnescape rest"
  by (simp add: htmlEscapeByte_def)

lemma htmlUnescape_htmlEscape: "CHR 0x00 \<notin> set s \<Longrightarrow> htmlUnescape (htmlEscape s) = s"
  by (induction s) (auto simp: htmlEscape_def htmlUnescape_byte)

text \<open>
  C9. The listing page escapes the fields of every record. No field can bring markup into
  the page: an escaped field contains none of the bytes \<open><\<close>, \<open>>\<close>, \<open>"\<close> and
  \<open>'\<close>, so the numbers of \<open><\<close> and of \<open>>\<close> in the page depend only on the number of
  records; and the field is shown as the text it is: decoding the character references of
  an escaped field that has no NUL byte gives the field back. The name \<open><b>X</b>\<close> is
  written as \<open>&lt;b&gt;X&lt;/b&gt;\<close>. The page is what \<open>GET /\<close> answers when the
  driver call does not fail.
\<close>

theorem listing_escapes_fields:
  "CHR ''<'' \<notin> set (htmlEscape s) \<and> CHR ''>'' \<notin> set (htmlEscape s)
   \<and> CHR 0x22 \<notin> set (htmlEscape s) \<and> CHR 0x27 \<notin> set (htmlEscape s)
   \<and> (CHR 0x00 \<notin> set s \<longrightarrow> htmlUnescape (htmlEscape s) = s)
   \<and> htmlEscape ''<b>X</b>'' = ''&lt;b&gt;X&lt;/b&gt;''
   \<and> renderBook fmt b
        = ''<tr><td>'' @ htmlEscape (Name b) @ ''</td><td>'' @ htmlEscape (Author b)
          @ ''</td><td>'' @ htmlEscape (fmt (Cost b)) @ ''</td><td>'' @ htmlEscape (Hex (ID b))
          @ ''</td></tr>''
   \<and> count_list (renderPage fmt books) (CHR ''<'')
        = count_list pageHead (CHR ''<'') + 10 * length books + count_list pageTail (CHR ''<'')
   \<and> count_list (renderPage fmt books) (CHR ''>'')
        = count_list pageHead (CHR ''>'') + 10 * length books + count_list pageTail (CHR ''>'')
   \<and> (Method r = ''GET'' \<and> driver env = Answered
        \<longrightarrow> fst (handleIndex fmt env r st) = ok (renderPage fmt (docs st)))"
proof -
  have example: "htmlEscape ''<b>X</b>'' = ''&lt;b&gt;X&lt;/b&gt;''"
    by (simp add: htmlEscape_def htmlEscapeByte_def)
  have row: "renderBook fmt b
        = ''<tr><td>'' @ htmlEscape (Name b) @ ''</td><td>'' @ htmlEscape (Author b)
          @ ''</td><td>'' @ htmlEscape (fmt (Cost b)) @ ''</td><td>'' @ htmlEscape (Hex (ID b))
          @ ''</td></tr>''"
    by (simp add: renderBook_def cell_def)
  have index: "Method r = ''GET'' \<and> driver env = Answered
        \<longrightarrow> fst (handleIndex fmt env r st) = ok (renderPage fmt (docs st))"
    by (simp add: handleIndex_def getBooks_def Let_def)
  show ?thesis
    using htmlEscape_no_markup [of s] htmlUnescape_htmlEscape [of s] example row
      renderPage_lt [of fmt books] renderPage_gt [of fmt books] index
    by blast
qed

theorem listing_escapes_fields_witness:
  "CHR 0x00 \<notin> set (Name htmlBook)
   \<and> htmlUnescape (htmlEscape (Name htmlBook)) = Name htmlBook
   \<and> Method reqGet = ''GET'' \<and> driver envUp = Answered
   \<and> fst (handleIndex showSeven envUp reqGet htmlStore) = ok (renderPage showSeven (docs htmlStore))
   \<and> renderPage showSeven (docs htmlStore)
       = pageHead @ ''<tr><td>&lt;b&gt;X&lt;/b&gt;</td><td>A&amp;B</td><td>7</td><td>0102030405060708090a0b0c</td></tr>'' @ pageTail"
proof -
  have nonul: "CHR 0x00 \<notin> set (Name htmlBook)"
    by (simp add: htmlBook_def)
  have get: "Method reqGet = ''GET''"
    by (simp add: reqGet_def)
  have up: "driver envUp = Answered"
    by (simp add: envUp_def)
  have page: "renderPage showSeven (docs htmlStore)
       = pageHead @ ''<tr><td>&lt;b&gt;X&lt;/b&gt;</td><td>A&amp;B</td><td>7</td><td>0102030405060708090a0b0c</td></tr>'' @ pageTail"
    by code_simp
  from listing_escapes_fields [of "Name htmlBook" showSeven htmlBook "docs htmlStore" reqGet envUp htmlStore]
  show ?thesis
    using nonul get up page by blast
qed

end
